theory Spec2Isabelle
  imports Main "HOL-Library.Sublist" "HOL-Library.AList"
begin

section \<open>Texts and the Python string operations the program uses\<close>

text \<open>
  A Python \<open>str\<close> is modelled as a \<open>string\<close> holding its UTF-8 bytes. All the
  keywords and tokens the program searches for are ASCII, and UTF-8 never uses an ASCII
  byte inside the encoding of another character, so \<open>kw in s\<close> on code points and
  \<^const>\<open>sublist\<close> on bytes agree.

  \<open>str.lower\<close> and \<open>str.strip\<close> belong to the Python library (they are Unicode
  aware); the model takes them as parameters, collected in \<open>pylib\<close>, so that every
  theorem holds for whatever these two functions do.
\<close>

record pylib =
  str_lower :: "string \<Rightarrow> string"
  str_strip :: "string \<Rightarrow> string"

text \<open>\<open>s.replace(old, new)\<close>: every non-overlapping occurrence, leftmost first.\<close>

function str_replace :: "string \<Rightarrow> string \<Rightarrow> string \<Rightarrow> string" where
  "str_replace old new [] = (if old = [] then new else [])"
| "str_replace old new (c # cs) =
     (if old = [] then new @ c # str_replace old new cs
      else if prefix old (c # cs)
        then new @ str_replace old new (drop (length old) (c # cs))
      else c # str_replace old new cs)"
  by pat_completeness auto
termination
  by (relation "measure (\<lambda>(old, new, s). length s)") (auto simp: neq_Nil_conv)

text \<open>The instance of the library used to evaluate examples: on ASCII text Python's
  \<open>lower\<close> maps \<open>A\<close>..\<open>Z\<close> to \<open>a\<close>..\<open>z\<close> and \<open>strip\<close> removes leading and
  trailing white space.\<close>

definition ascii_lower_char :: "char \<Rightarrow> char" where
  "ascii_lower_char c =
     (let n = (of_char c :: nat) in if 65 \<le> n \<and> n \<le> 90 then char_of (n + 32) else c)"

definition ascii_space :: "char \<Rightarrow> bool" where
  "ascii_space c = ((of_char c :: nat) \<in> {9, 10, 11, 12, 13, 28, 29, 30, 31, 32})"

definition ascii_strip :: "string \<Rightarrow> string" where
  "ascii_strip s = rev (dropWhile ascii_space (rev (dropWhile ascii_space s)))"

definition ascii_lib :: pylib where
  "ascii_lib = \<lparr> str_lower = map ascii_lower_char, str_strip = ascii_strip \<rparr>"

section \<open>The event router (\<open>main.py\<close>)\<close>

subsection \<open>Classification: \<open>_analyze_query_type\<close>\<close>

definition search_keywords :: "string list" where
  "search_keywords = [''search'', ''find'', ''research'', ''news'', ''latest'', ''investigate'']"

definition slack_keywords :: "string list" where
  "slack_keywords = [''channel'', ''message'', ''discuss'', ''slack'', ''who'', ''what'']"

definition analyze_query_type :: "pylib \<Rightarrow> string \<Rightarrow> string" where
  "analyze_query_type lib query =
     (let query_lower = str_lower lib query in
      if list_ex (\<lambda>keyword. sublist keyword query_lower) search_keywords then ''web_search''
      else if list_ex (\<lambda>keyword. sublist keyword query_lower) slack_keywords then ''slack_query''
      else ''general_chat'')"

subsection \<open>The server object and its construction\<close>

text \<open>
  The fields of \<open>SlackMCPServer\<close> that the router reads: whether \<open>slack_client\<close> is
  set (not \<open>None\<close>), and \<open>bot_user_id\<close>.
\<close>

record slack_server =
  slack_client :: bool
  bot_user_id :: "string option"

text \<open>What construction reads from outside: the bot token of the environment and the
  outcome of \<open>auth_test()\<close> (a \<open>SlackApiError\<close>, or a response whose \<open>user_id\<close> may be
  missing).\<close>

datatype auth_result = AuthSlackApiError | AuthResponse "string option"

record startup =
  slack_bot_token :: "string option"
  auth_test :: auth_result

text \<open>\<open>_initialize_slack_client\<close>: returns whether a client was made, and stores the
  authenticated user id in the object.\<close>

definition initialize_slack_client :: "startup \<Rightarrow> slack_server \<Rightarrow> bool \<times> slack_server" where
  "initialize_slack_client su self =
     (case slack_bot_token su of
        None \<Rightarrow> (False, self)
      | Some token \<Rightarrow>
          if token = [] then (False, self)
          else (case auth_test su of
                  AuthResponse user_id \<Rightarrow> (True, self\<lparr>bot_user_id := user_id\<rparr>)
                | AuthSlackApiError \<Rightarrow> (False, self)))"

text \<open>\<open>__init__\<close>, in the order of its statements: the Slack client is initialised
  first, the line \<open>self.bot_user_id = None\<close> comes after it.\<close>

definition init_server :: "startup \<Rightarrow> slack_server" where
  "init_server su =
     (let self0 = \<lparr> slack_client = False, bot_user_id = None \<rparr>;
          (client, self1) = initialize_slack_client su self0;
          self2 = self1\<lparr>slack_client := client\<rparr>;
          self3 = self2\<lparr>bot_user_id := None\<rparr>
      in self3)"

subsection \<open>Inbound events and observable effects\<close>

text \<open>
  The fields of a Slack event that the router reads; \<open>None\<close> is a missing key. A
  Socket Mode request carries its envelope id, its type and the event of its payload.
\<close>

record mention_event =
  ev_type :: "string option"
  ev_channel :: "string option"
  ev_user :: "string option"
  ev_text :: "string option"

record socket_request =
  envelope_id :: string
  req_type :: string
  payload_event :: "mention_event option"

text \<open>
  What a test double would observe, in order: the acknowledgment call, the entry into
  classification, the entry into a handler, a \<open>chat_postMessage\<close> call, a printed
  diagnostic.
\<close>

datatype effect =
    Ack string
  | Classify string
  | Dispatch string string string
  | PostMessage string string
  | Log string

datatype post_result = PostOk | PostSlackApiError | PostOtherError

text \<open>
  The collaborators of the router: the string library, whether sending the
  acknowledgment raises, what \<open>chat_postMessage\<close> does, and the three handlers, each
  giving the effects of its run and whether it ends by raising.
\<close>

record router_env =
  lib :: pylib
  ack_raises :: "string \<Rightarrow> bool"
  chat_postMessage :: "string \<Rightarrow> string \<Rightarrow> post_result"
  process_web_search :: "string \<Rightarrow> string \<Rightarrow> effect list \<times> bool"
  process_slack_query :: "string \<Rightarrow> string \<Rightarrow> effect list \<times> bool"
  process_general_chat :: "string \<Rightarrow> string \<Rightarrow> effect list \<times> bool"

definition cross_mark :: string where
  "cross_mark = [CHR 0xE2, CHR 0x9D, CHR 0x8C]"

text \<open>\<open>_send_message\<close>: the effects, and the returned flag (\<open>None\<close> when an exception
  other than \<open>SlackApiError\<close> escapes).\<close>

definition send_message ::
  "router_env \<Rightarrow> slack_server \<Rightarrow> string \<Rightarrow> string \<Rightarrow> effect list \<times> bool option" where
  "send_message env self channel message =
     (if \<not> slack_client self \<or> channel = [] \<or> message = [] then ([], Some False)
      else (case chat_postMessage env channel message of
              PostOk \<Rightarrow> ([PostMessage channel message], Some True)
            | PostSlackApiError \<Rightarrow>
                ([PostMessage channel message, Log ''Failed to send message''], Some False)
            | PostOtherError \<Rightarrow> ([PostMessage channel message], None)))"

text \<open>From here on a run is a pair: its effects, and whether it ended by raising.\<close>

definition send_error_response ::
  "router_env \<Rightarrow> slack_server \<Rightarrow> string option \<Rightarrow> effect list \<times> bool" where
  "send_error_response env self channel =
     (case channel of
        None \<Rightarrow> ([], False)
      | Some c \<Rightarrow>
          if c = [] then ([], False)
          else (let (es, r) = send_message env self c
                                (cross_mark @ '' An error occurred. Please try again.'')
                in (es, r = None)))"

definition validate_mention_event :: "slack_server \<Rightarrow> mention_event \<Rightarrow> bool" where
  "validate_mention_event self event =
     (slack_client self \<and> ev_channel event \<noteq> None \<and> ev_user event \<noteq> None)"

definition clean_mention_text :: "pylib \<Rightarrow> slack_server \<Rightarrow> string \<Rightarrow> string" where
  "clean_mention_text l self text =
     (case bot_user_id self of
        None \<Rightarrow> text
      | Some b \<Rightarrow>
          if b = [] then text
          else str_strip l (str_replace (''<@'' @ b @ ''>'') [] text))"

definition route_and_process_query ::
  "router_env \<Rightarrow> slack_server \<Rightarrow> string \<Rightarrow> string \<Rightarrow> effect list \<times> bool" where
  "route_and_process_query env self query channel =
     (let query_type = analyze_query_type (lib env) query;
          (es, raised) =
            (if query_type = ''web_search'' then process_web_search env query channel
             else if query_type = ''slack_query'' then process_slack_query env query channel
             else process_general_chat env query channel);
          run = [Classify query, Dispatch query_type query channel] @ es
      in if raised
         then (let (es', raised') = send_error_response env self (Some channel)
               in (run @ Log ''Query processing error'' # es', raised'))
         else (run, False))"

definition handle_app_mention ::
  "router_env \<Rightarrow> slack_server \<Rightarrow> mention_event \<Rightarrow> effect list \<times> bool" where
  "handle_app_mention env self event =
     (if \<not> validate_mention_event self event then ([], False)
      else
        (let channel = ev_channel event;
             user = ev_user event;
             text = clean_mention_text (lib env) self
                      (case ev_text event of None \<Rightarrow> [] | Some t \<Rightarrow> t)
         in case channel of
              None \<Rightarrow> ([], False)
            | Some c \<Rightarrow>
                if text = [] \<or> user = bot_user_id self \<or> c = [] then ([], False)
                else (let (es, raised) = route_and_process_query env self text c
                      in if raised
                         then (let (es', raised') =
                                     send_error_response env self (ev_channel event)
                               in (es @ Log ''App mention handling error'' # es', raised'))
                         else (es, False))))"

definition empty_event :: mention_event where
  "empty_event = \<lparr> ev_type = None, ev_channel = None, ev_user = None, ev_text = None \<rparr>"

text \<open>\<open>handle_socket_mode_request\<close>: the listener registered on the control channel.
  Everything is inside one \<open>try\<close>; its \<open>except\<close> prints and returns.\<close>

definition handle_socket_mode_request ::
  "router_env \<Rightarrow> slack_server \<Rightarrow> socket_request \<Rightarrow> effect list" where
  "handle_socket_mode_request env self req =
     Ack (envelope_id req) #
     (if ack_raises env (envelope_id req) then [Log ''Socket Mode request handling error'']
      else if req_type req = ''events_api'' then
        (let event = (case payload_event req of None \<Rightarrow> empty_event | Some e \<Rightarrow> e)
         in if ev_type event = Some ''app_mention''
            then (let (es, raised) = handle_app_mention env self event
                  in if raised then es @ [Log ''Socket Mode request handling error''] else es)
            else [])
      else [])"

text \<open>Which effects are classification or dispatch logic.\<close>

fun is_processing :: "effect \<Rightarrow> bool" where
  "is_processing (Classify q) = True"
| "is_processing (Dispatch t q c) = True"
| "is_processing e = False"

text \<open>A concrete environment for examples: nothing raises, every handler posts one
  reply to the channel.\<close>

definition demo_router_env :: router_env where
  "demo_router_env =
     \<lparr> lib = ascii_lib,
       ack_raises = (\<lambda>e. False),
       chat_postMessage = (\<lambda>c m. PostOk),
       process_web_search = (\<lambda>q c. ([PostMessage c ''searching''], False)),
       process_slack_query = (\<lambda>q c. ([PostMessage c ''channels''], False)),
       process_general_chat = (\<lambda>q c. ([PostMessage c ''chat''], False)) \<rparr>"

section \<open>The autonomous agent (\<open>autonomous_agent.py\<close>)\<close>

subsection \<open>Deserialised JSON and the Python operations applied to it\<close>

text \<open>
  What \<open>json.loads\<close> and \<open>response.json()\<close> return: \<open>None\<close>, a bool, a number, a
  \<open>str\<close>, a \<open>list\<close> or a \<open>dict\<close> with \<open>str\<close> keys (an association list with
  distinct keys, in insertion order). Numbers are integers here; floating point numbers
  are outside the model.
\<close>

datatype json =
    JNull
  | JBool bool
  | JInt int
  | JStr string
  | JArr "json list"
  | JObj "(string \<times> json) list"

text \<open>The exceptions the program meets, each with the text \<open>str(e)\<close> gives.
  \<open>LibraryError\<close> is any exception raised inside a collaborator (HTTP client,
  completion client, JSON decoder), with the message it carries.\<close>

datatype py_error =
    AttributeError string
  | TypeError string
  | KeyError string
  | IndexError string
  | ResourceError string
  | LibraryError string

fun str_exc :: "py_error \<Rightarrow> string" where
  "str_exc (AttributeError m) = m"
| "str_exc (TypeError m) = m"
| "str_exc (KeyError m) = m"
| "str_exc (IndexError m) = m"
| "str_exc (ResourceError m) = m"
| "str_exc (LibraryError m) = m"

definition and_then :: "'e + 'a \<Rightarrow> ('a \<Rightarrow> 'e + 'b) \<Rightarrow> 'e + 'b" where
  "and_then r f = (case r of Inl e \<Rightarrow> Inl e | Inr x \<Rightarrow> f x)"

definition quoted :: "string \<Rightarrow> string" where
  "quoted s = CHR 0x27 # s @ [CHR 0x27]"

fun type_name :: "json \<Rightarrow> string" where
  "type_name JNull = ''NoneType''"
| "type_name (JBool b) = ''bool''"
| "type_name (JInt i) = ''int''"
| "type_name (JStr s) = ''str''"
| "type_name (JArr xs) = ''list''"
| "type_name (JObj kvs) = ''dict''"

text \<open>Truth value of an object (\<open>not plan\<close>, \<open>context or {}\<close>).\<close>

fun py_truthy :: "json \<Rightarrow> bool" where
  "py_truthy JNull = False"
| "py_truthy (JBool b) = b"
| "py_truthy (JInt i) = (i \<noteq> 0)"
| "py_truthy (JStr s) = (s \<noteq> [])"
| "py_truthy (JArr xs) = (xs \<noteq> [])"
| "py_truthy (JObj kvs) = (kvs \<noteq> [])"

text \<open>\<open>obj.get(key, default)\<close>: only a \<open>dict\<close> has the method.\<close>

fun py_get :: "json \<Rightarrow> string \<Rightarrow> json \<Rightarrow> py_error + json" where
  "py_get (JObj kvs) key dflt = Inr (case map_of kvs key of None \<Rightarrow> dflt | Some v \<Rightarrow> v)"
| "py_get obj key dflt =
     Inl (AttributeError (quoted (type_name obj) @ '' object has no attribute '' @ quoted ''get''))"

text \<open>\<open>key in obj\<close> for a \<open>str\<close> key: key membership in a dict, element membership
  in a list, substring test in a str.\<close>

fun py_in :: "string \<Rightarrow> json \<Rightarrow> py_error + bool" where
  "py_in key (JObj kvs) = Inr (map_of kvs key \<noteq> None)"
| "py_in key (JArr xs) = Inr (JStr key \<in> set xs)"
| "py_in key (JStr s) = Inr (sublist key s)"
| "py_in key obj =
     Inl (TypeError (''argument of type '' @ quoted (type_name obj) @ '' is not iterable''))"

text \<open>\<open>obj[key]\<close> for a \<open>str\<close> key.\<close>

fun py_getitem :: "json \<Rightarrow> string \<Rightarrow> py_error + json" where
  "py_getitem (JObj kvs) key =
     (case map_of kvs key of None \<Rightarrow> Inl (KeyError (quoted key)) | Some v \<Rightarrow> Inr v)"
| "py_getitem (JArr xs) key = Inl (TypeError ''list indices must be integers or slices, not str'')"
| "py_getitem (JStr s) key =
     Inl (TypeError (''string indices must be integers, not '' @ quoted ''str''))"
| "py_getitem obj key = Inl (TypeError (quoted (type_name obj) @ '' object is not subscriptable''))"

text \<open>The characters of a text: a character is one UTF-8 sequence, whose length the
  lead byte gives.\<close>

definition utf8_width :: "char \<Rightarrow> nat" where
  "utf8_width c =
     (let n = (of_char c :: nat)
      in if n < 192 then 1 else if n < 224 then 2 else if n < 240 then 3 else 4)"

fun chars_of :: "string \<Rightarrow> string list" where
  "chars_of [] = []"
| "chars_of (c # cs) =
     (c # take (utf8_width c - 1) cs) # chars_of (drop (utf8_width c - 1) cs)"

text \<open>\<open>obj[0]\<close>.\<close>

fun py_first :: "json \<Rightarrow> py_error + json" where
  "py_first (JArr []) = Inl (IndexError ''list index out of range'')"
| "py_first (JArr (x # xs)) = Inr x"
| "py_first (JStr []) = Inl (IndexError ''string index out of range'')"
| "py_first (JStr (c # cs)) = Inr (JStr (c # take (utf8_width c - 1) cs))"
| "py_first (JObj kvs) = Inl (KeyError ''0'')"
| "py_first obj = Inl (TypeError (quoted (type_name obj) @ '' object is not subscriptable''))"

text \<open>\<open>for x in obj\<close>: the elements of a list, the keys of a dict, the characters of
  a str.\<close>

fun py_iter :: "json \<Rightarrow> py_error + json list" where
  "py_iter (JArr xs) = Inr xs"
| "py_iter (JObj kvs) = Inr (map (\<lambda>kv. JStr (fst kv)) kvs)"
| "py_iter (JStr s) = Inr (map JStr (chars_of s))"
| "py_iter obj = Inl (TypeError (quoted (type_name obj) @ '' object is not iterable''))"

text \<open>\<open>str(n)\<close> for an integer.\<close>

fun show_nat :: "nat \<Rightarrow> string" where
  "show_nat n =
     (if n < 10 then [char_of (48 + n)] else show_nat (n div 10) @ [char_of (48 + n mod 10)])"

definition show_int :: "int \<Rightarrow> string" where
  "show_int i = (if i < 0 then CHR ''-'' # show_nat (nat (- i)) else show_nat (nat i))"

declare show_nat.simps [simp del]

subsection \<open>The outside world: calls, history, replies\<close>

text \<open>
  Every call that leaves the process, identified by what the program puts into it. The
  prompt of a completion request is a fixed template around the user request, the tool
  listing (a function of the catalog, \<open>_format_tools\<close>) and the context, or around the
  request, the plan and the step results; the call records those ingredients.
\<close>

type_synonym catalog = "(string \<times> json list) list"

datatype call =
    ProbeGet string nat
  | ToolsList string nat
  | ToolsCall string json json nat
  | PlanCompletion string catalog json
  | SynthesisCompletion string json "json list"

text \<open>The history records when a call is issued and when the program resumes with
  its reply (or its exception).\<close>

datatype event = Issued call | Completed call

type_synonym history = "event list"

datatype http_result = HttpRaised string | HttpResponse int "string + json"

datatype completion_result = CompletionRaised string | CompletionChoices "string option list"

text \<open>
  The collaborators. A reply may depend on everything that happened before the call.
  An HTTP reply is an exception (time-out, connection failure) or a status code with a
  body that \<open>response.json()\<close> decodes (\<open>Inr\<close>) or rejects (\<open>Inl\<close>, the decoder's
  message). A completion is an exception or the contents of the choices.
  \<open>json_loads\<close> is the JSON decoder applied to a text.
\<close>

record agent_env =
  http :: "history \<Rightarrow> call \<Rightarrow> http_result"
  complete :: "history \<Rightarrow> call \<Rightarrow> completion_result"
  json_loads :: "string \<Rightarrow> string + json"

definition http_call :: "agent_env \<Rightarrow> call \<Rightarrow> history \<Rightarrow> http_result \<times> history" where
  "http_call env c h = (http env h c, h @ [Issued c, Completed c])"

definition completion_call ::
  "agent_env \<Rightarrow> call \<Rightarrow> history \<Rightarrow> completion_result \<times> history" where
  "completion_call env c h = (complete env h c, h @ [Issued c, Completed c])"

subsection \<open>The agent object\<close>

record server_config =
  url :: string
  description :: string

type_synonym registry = "(string \<times> server_config) list"

record agent =
  openai_client :: bool
  available_servers :: registry
  tool_registry :: catalog

subsection \<open>Backend registry: \<open>_test_server\<close>, \<open>_discover_servers\<close>\<close>

definition test_server :: "agent_env \<Rightarrow> string \<Rightarrow> history \<Rightarrow> bool \<times> history" where
  "test_server env u h =
     (let (r, h') = http_call env (ProbeGet (str_replace ''/mcp'' [] u) 2) h
      in (case r of
            HttpRaised m \<Rightarrow> (False, h')
          | HttpResponse status_code body \<Rightarrow> (status_code < 500, h')))"

definition servers :: registry where
  "servers =
     [(''slack_mcp'', \<lparr> url = ''http://localhost:8001/mcp'',
                        description = ''Slack workspace management'' \<rparr>),
      (''tavily_mcp'', \<lparr> url = ''http://localhost:8002/mcp'',
                         description = ''Web search and research'' \<rparr>)]"

fun probe_servers ::
  "agent_env \<Rightarrow> registry \<Rightarrow> registry \<Rightarrow> history \<Rightarrow> registry \<times> history" where
  "probe_servers env [] active_servers h = (active_servers, h)"
| "probe_servers env ((name, config) # rest) active_servers h =
     (let (ok, h') = test_server env (url config) h
      in probe_servers env rest
           (if ok then AList.update name config active_servers else active_servers) h')"

definition discover_servers :: "agent_env \<Rightarrow> history \<Rightarrow> registry \<times> history" where
  "discover_servers env h = probe_servers env servers [] h"

subsection \<open>Tool catalog: \<open>discover_tools\<close>\<close>

text \<open>The list comprehension that builds the entries of one backend.\<close>

fun tool_entries :: "string \<Rightarrow> json list \<Rightarrow> py_error + json list" where
  "tool_entries server_name [] = Inr []"
| "tool_entries server_name (tool # tools) =
     and_then (py_get tool ''name'' (JStr [])) (\<lambda>n.
     and_then (py_get tool ''description'' (JStr [])) (\<lambda>d.
     and_then (tool_entries server_name tools) (\<lambda>rest.
       Inr (JObj [(''name'', n), (''description'', d), (''server'', JStr server_name)] # rest))))"

text \<open>
  The body of the \<open>try\<close> for one backend, after the POST: \<open>Inr (Some entries)\<close> when
  the catalog gets an entry, \<open>Inr None\<close> when a test fails and nothing is stored,
  \<open>Inl\<close> when an exception is raised (the loop's \<open>except\<close> then continues).
\<close>

definition tools_of_reply :: "string \<Rightarrow> http_result \<Rightarrow> py_error + json list option" where
  "tools_of_reply server_name r =
     (case r of
        HttpRaised m \<Rightarrow> Inl (LibraryError m)
      | HttpResponse status_code body \<Rightarrow>
          if status_code = 200 then
            (case body of
               Inl m \<Rightarrow> Inl (LibraryError m)
             | Inr data \<Rightarrow>
                 and_then (py_in ''result'' data) (\<lambda>has_result.
                 if \<not> has_result then Inr None
                 else and_then (py_getitem data ''result'') (\<lambda>res.
                      and_then (py_in ''tools'' res) (\<lambda>has_tools.
                      if \<not> has_tools then Inr None
                      else and_then (py_getitem res ''tools'') (\<lambda>tools.
                           and_then (py_iter tools) (\<lambda>ts.
                           and_then (tool_entries server_name ts) (\<lambda>entries.
                             Inr (Some entries))))))))
          else Inr None)"

fun discover_loop ::
  "agent_env \<Rightarrow> registry \<Rightarrow> catalog \<Rightarrow> history \<Rightarrow> catalog \<times> history" where
  "discover_loop env [] all_tools h = (all_tools, h)"
| "discover_loop env ((server_name, server_config) # rest) all_tools h =
     (let (r, h') = http_call env (ToolsList (url server_config) 10) h
      in discover_loop env rest
           (case tools_of_reply server_name r of
              Inr (Some entries) \<Rightarrow> AList.update server_name entries all_tools
            | Inr None \<Rightarrow> all_tools
            | Inl e \<Rightarrow> all_tools) h')"

definition discover_tools ::
  "agent_env \<Rightarrow> agent \<Rightarrow> history \<Rightarrow> catalog \<times> agent \<times> history" where
  "discover_tools env self h =
     (let (all_tools, h') = discover_loop env (available_servers self) [] h
      in (all_tools, self\<lparr>tool_registry := all_tools\<rparr>, h'))"

subsection \<open>Tool invocation: \<open>execute_tool\<close>\<close>

text \<open>The outcome dictionaries.\<close>

definition failure :: "string \<Rightarrow> json" where
  "failure msg = JObj [(''success'', JBool False), (''error'', JStr msg)]"

definition not_available :: "string \<Rightarrow> json" where
  "not_available shown = failure (''Server '' @ shown @ '' not available'')"

text \<open>The body of the \<open>try\<close> after the POST; an exception is caught by the
  \<open>except\<close> of \<open>execute_tool\<close>, which turns it into a failure outcome.\<close>

definition outcome_of_reply :: "string \<Rightarrow> json \<Rightarrow> http_result \<Rightarrow> py_error + json" where
  "outcome_of_reply server_name tool_name r =
     (case r of
        HttpRaised m \<Rightarrow> Inl (LibraryError m)
      | HttpResponse status_code body \<Rightarrow>
          if status_code = 200 then
            (case body of
               Inl m \<Rightarrow> Inl (LibraryError m)
             | Inr data \<Rightarrow>
                 and_then (py_in ''result'' data) (\<lambda>has_result.
                 if \<not> has_result then Inr (failure ''Invalid response format'')
                 else and_then (py_getitem data ''result'') (\<lambda>res.
                      and_then (py_in ''content'' res) (\<lambda>has_content.
                      if \<not> has_content then Inr (failure ''Invalid response format'')
                      else and_then (py_getitem res ''content'') (\<lambda>content.
                           and_then (py_first content) (\<lambda>item.
                           and_then (py_get item ''text'' (JStr [])) (\<lambda>text.
                             Inr (JObj [(''success'', JBool True), (''result'', text),
                                        (''server'', JStr server_name),
                                        (''tool'', tool_name)]))))))))
          else Inr (failure ''Invalid response format''))"

text \<open>
  \<open>execute_tool\<close>. The membership test \<open>server_name not in self.available_servers\<close>
  hashes \<open>server_name\<close>: a list or a dict is unhashable and the \<open>TypeError\<close> leaves the
  function (the test is before the \<open>try\<close>); any other value that is not a key of the
  registry gives the failure outcome, formatted with \<open>str(server_name)\<close>.
\<close>

fun execute_tool ::
  "agent_env \<Rightarrow> agent \<Rightarrow> json \<Rightarrow> json \<Rightarrow> json \<Rightarrow> history \<Rightarrow> (py_error + json) \<times> history" where
  "execute_tool env self (JArr xs) tool_name arguments h =
     (Inl (TypeError (''unhashable type: '' @ quoted ''list'')), h)"
| "execute_tool env self (JObj kvs) tool_name arguments h =
     (Inl (TypeError (''unhashable type: '' @ quoted ''dict'')), h)"
| "execute_tool env self JNull tool_name arguments h = (Inr (not_available ''None''), h)"
| "execute_tool env self (JBool b) tool_name arguments h =
     (Inr (not_available (if b then ''True'' else ''False'')), h)"
| "execute_tool env self (JInt i) tool_name arguments h = (Inr (not_available (show_int i)), h)"
| "execute_tool env self (JStr server_name) tool_name arguments h =
     (case map_of (available_servers self) server_name of
        None \<Rightarrow> (Inr (not_available server_name), h)
      | Some server_config \<Rightarrow>
          (let (r, h') = http_call env (ToolsCall (url server_config) tool_name arguments 30) h
           in (case outcome_of_reply server_name tool_name r of
                 Inl e \<Rightarrow> (Inr (failure (str_exc e)), h')
               | Inr outcome \<Rightarrow> (Inr outcome, h'))))"

subsection \<open>Plan generation, plan execution, synthesis: \<open>execute\<close>\<close>

text \<open>
  \<open>_create_plan\<close>. The result is the decoded plan, \<open>None\<close> (\<^const>\<open>JNull\<close>) when the
  completion call or the decoding raises. An exception is raised only when no completion
  client is configured.
\<close>

definition create_plan ::
  "agent_env \<Rightarrow> agent \<Rightarrow> string \<Rightarrow> catalog \<Rightarrow> json \<Rightarrow> history \<Rightarrow> (py_error + json) \<times> history" where
  "create_plan env self request tools context h =
     (if \<not> openai_client self then (Inl (ResourceError ''OpenAI client not configured''), h)
      else
        (let (r, h') = completion_call env
                         (PlanCompletion request tools
                            (if py_truthy context then context else JObj [])) h
         in (case r of
               CompletionRaised m \<Rightarrow> (Inr JNull, h')
             | CompletionChoices [] \<Rightarrow> (Inr JNull, h')
             | CompletionChoices (content # others) \<Rightarrow>
                 (case json_loads env
                         (case content of
                            None \<Rightarrow> ''{}''
                          | Some t \<Rightarrow> if t = [] then ''{}'' else t) of
                    Inl m \<Rightarrow> (Inr JNull, h')
                  | Inr plan \<Rightarrow> (Inr plan, h')))))"

text \<open>
  The plan executor: the loop of \<open>execute\<close> over \<open>plan.get("steps", [])\<close>. An
  exception leaves the loop with the steps run so far recorded in the history.
\<close>

fun run_steps ::
  "agent_env \<Rightarrow> agent \<Rightarrow> json list \<Rightarrow> json list \<Rightarrow> history \<Rightarrow>
     (py_error + json list) \<times> history" where
  "run_steps env self [] results h = (Inr results, h)"
| "run_steps env self (step # rest) results h =
     (case py_get step ''action'' JNull of
        Inl e \<Rightarrow> (Inl e, h)
      | Inr action \<Rightarrow>
          if action = JStr ''tool_execution'' then
            (case and_then (py_get step ''server'' JNull) (\<lambda>server.
                  and_then (py_get step ''tool'' JNull) (\<lambda>tool.
                  and_then (py_get step ''arguments'' (JObj [])) (\<lambda>arguments.
                    Inr (server, tool, arguments)))) of
               Inl e \<Rightarrow> (Inl e, h)
             | Inr (server, tool, arguments) \<Rightarrow>
                 (case execute_tool env self server tool arguments h of
                    (Inl e, h') \<Rightarrow> (Inl e, h')
                  | (Inr result, h') \<Rightarrow> run_steps env self rest (results @ [result]) h'))
          else run_steps env self rest results h)"

definition execute_plan ::
  "agent_env \<Rightarrow> agent \<Rightarrow> json \<Rightarrow> history \<Rightarrow> (py_error + json list) \<times> history" where
  "execute_plan env self plan h =
     (case and_then (py_get plan ''steps'' (JArr [])) py_iter of
        Inl e \<Rightarrow> (Inl e, h)
      | Inr steps \<Rightarrow> run_steps env self steps [] h)"

text \<open>\<open>_synthesize_results\<close>.\<close>

definition synthesize_results ::
  "agent_env \<Rightarrow> agent \<Rightarrow> string \<Rightarrow> json \<Rightarrow> json list \<Rightarrow> history \<Rightarrow>
     (py_error + string) \<times> history" where
  "synthesize_results env self request plan results h =
     (if \<not> openai_client self then (Inl (ResourceError ''OpenAI client not configured''), h)
      else
        (let (r, h') = completion_call env (SynthesisCompletion request plan results) h
         in (case r of
               CompletionRaised m \<Rightarrow> (Inl (ResourceError (''Synthesis failed: '' @ m)), h')
             | CompletionChoices [] \<Rightarrow>
                 (Inl (ResourceError (''Synthesis failed: '' @ ''list index out of range'')), h')
             | CompletionChoices (content # others) \<Rightarrow>
                 (Inr (case content of
                         None \<Rightarrow> ''No synthesis available''
                       | Some t \<Rightarrow> if t = [] then ''No synthesis available'' else t), h'))))"

text \<open>The \<open>try\<close> block of \<open>execute\<close>.\<close>

definition execute_body ::
  "agent_env \<Rightarrow> agent \<Rightarrow> string \<Rightarrow> json \<Rightarrow> history \<Rightarrow> (py_error + string) \<times> agent \<times> history" where
  "execute_body env self user_request context h =
     (let (all_tools, self1, h1) = discover_tools env self h
      in (case create_plan env self1 user_request (tool_registry self1) context h1 of
            (Inl e, h2) \<Rightarrow> (Inl e, self1, h2)
          | (Inr plan, h2) \<Rightarrow>
              if \<not> py_truthy plan
              then (Inr (cross_mark @ '' Could not create execution plan''), self1, h2)
              else (case execute_plan env self1 plan h2 of
                      (Inl e, h3) \<Rightarrow> (Inl e, self1, h3)
                    | (Inr results, h3) \<Rightarrow>
                        (let (r, h4) = synthesize_results env self1 user_request plan results h3
                         in (r, self1, h4)))))"

text \<open>\<open>execute\<close>: without a completion client it raises; otherwise every exception of
  the block is caught and returned as a text.\<close>

definition execute ::
  "agent_env \<Rightarrow> agent \<Rightarrow> string \<Rightarrow> json \<Rightarrow> history \<Rightarrow> (py_error + string) \<times> agent \<times> history" where
  "execute env self user_request context h =
     (if \<not> openai_client self then (Inl (ResourceError ''OpenAI client not configured''), self, h)
      else
        (let (r, self', h') = execute_body env self user_request context h
         in (case r of
               Inl e \<Rightarrow> (Inr (cross_mark @ '' Execution error: '' @ str_exc e), self', h')
             | Inr answer \<Rightarrow> (Inr answer, self', h'))))"

subsection \<open>Notions used to state the properties\<close>

text \<open>A field of an outcome dictionary, \<open>None\<close> when the key is missing.\<close>

fun field :: "json \<Rightarrow> string \<Rightarrow> json option" where
  "field (JObj kvs) key = map_of kvs key"
| "field obj key = None"

text \<open>A plan step that the executor acts on.\<close>

definition is_tool_execution :: "json \<Rightarrow> bool" where
  "is_tool_execution step = (field step ''action'' = Some (JStr ''tool_execution''))"

text \<open>
  A plan of the data model: a record whose \<open>steps\<close>, when present, is a sequence of
  records, a backend being named by a text or a scalar (never by a list or a record).
\<close>

fun is_record :: "json \<Rightarrow> bool" where
  "is_record (JObj kvs) = True"
| "is_record obj = False"

fun is_container :: "json \<Rightarrow> bool" where
  "is_container (JArr xs) = True"
| "is_container (JObj kvs) = True"
| "is_container obj = False"

definition wf_step :: "json \<Rightarrow> bool" where
  "wf_step step =
     (is_record step \<and>
      (case field step ''server'' of None \<Rightarrow> True | Some b \<Rightarrow> \<not> is_container b))"

fun steps_of :: "json \<Rightarrow> json list option" where
  "steps_of (JObj kvs) =
     (case map_of kvs ''steps'' of
        None \<Rightarrow> Some []
      | Some (JArr xs) \<Rightarrow> Some xs
      | Some other \<Rightarrow> None)"
| "steps_of obj = None"

definition wf_plan :: "json \<Rightarrow> bool" where
  "wf_plan plan = (case steps_of plan of None \<Rightarrow> False | Some steps \<Rightarrow> list_all wf_step steps)"

text \<open>The events of the sequential discovery of a registry, and the events that
  belong to the plan executor and to the synthesizer.\<close>

definition list_events :: "registry \<Rightarrow> history" where
  "list_events reg =
     concat (map (\<lambda>(name, config). [Issued (ToolsList (url config) 10),
                                     Completed (ToolsList (url config) 10)]) reg)"

fun call_of :: "event \<Rightarrow> call" where
  "call_of (Issued c) = c"
| "call_of (Completed c) = c"

fun is_tools_call :: "call \<Rightarrow> bool" where
  "is_tools_call (ToolsCall u t a n) = True"
| "is_tools_call c = False"

fun is_synthesis :: "call \<Rightarrow> bool" where
  "is_synthesis (SynthesisCompletion r p rs) = True"
| "is_synthesis c = False"

fun is_issue :: "event \<Rightarrow> bool" where
  "is_issue (Issued c) = True"
| "is_issue (Completed c) = False"

text \<open>Fan-out and fan-in: every call is issued before any call is joined.\<close>

definition fan_out_fan_in :: "history \<Rightarrow> bool" where
  "fan_out_fan_in h = list_all (\<lambda>e. \<not> is_issue e) (dropWhile is_issue h)"

text \<open>
  The replies the environment gives along a run of the liveness probes, and along a
  run of the discovery, in the order of the candidates.
\<close>

definition probe_of :: "server_config \<Rightarrow> call" where
  "probe_of config = ProbeGet (str_replace ''/mcp'' [] (url config)) 2"

fun probe_replies :: "agent_env \<Rightarrow> history \<Rightarrow> registry \<Rightarrow> http_result list" where
  "probe_replies env h [] = []"
| "probe_replies env h ((name, config) # rest) =
     http env h (probe_of config) #
     probe_replies env (h @ [Issued (probe_of config), Completed (probe_of config)]) rest"

definition probe_events :: "registry \<Rightarrow> history" where
  "probe_events cands =
     concat (map (\<lambda>(name, config). [Issued (probe_of config), Completed (probe_of config)]) cands)"

fun list_replies :: "agent_env \<Rightarrow> history \<Rightarrow> registry \<Rightarrow> http_result list" where
  "list_replies env h [] = []"
| "list_replies env h ((name, config) # rest) =
     http env h (ToolsList (url config) 10) #
     list_replies env
       (h @ [Issued (ToolsList (url config) 10), Completed (ToolsList (url config) 10)]) rest"

text \<open>A probe is live when it returns, with a status below 500.\<close>

fun live_reply :: "http_result \<Rightarrow> bool" where
  "live_reply (HttpResponse status_code body) = (status_code < 500)"
| "live_reply (HttpRaised m) = False"

text \<open>
  The failing \<open>tools/list\<close> call in the words of the specification: the call times
  out (or raises otherwise), its status is not a success status (2xx), or its body is
  malformed, a conforming body being \<open>{result: {tools: [{name, description}, ...]}}\<close>,
  an object whose \<open>result\<close> is an object whose \<open>tools\<close> is an array of records.
\<close>

definition success_status :: "int \<Rightarrow> bool" where
  "success_status status_code = (200 \<le> status_code \<and> status_code < 300)"

fun conforming_listing :: "json \<Rightarrow> json list option" where
  "conforming_listing (JObj kvs) =
     (case map_of kvs ''result'' of
        Some (JObj res) \<Rightarrow>
          (case map_of res ''tools'' of
             Some (JArr ts) \<Rightarrow> if list_all is_record ts then Some ts else None
           | other \<Rightarrow> None)
      | other \<Rightarrow> None)"
| "conforming_listing body = None"

fun claimed_failure :: "http_result \<Rightarrow> bool" where
  "claimed_failure (HttpRaised m) = True"
| "claimed_failure (HttpResponse status_code (Inl m)) = True"
| "claimed_failure (HttpResponse status_code (Inr data)) =
     (\<not> success_status status_code \<or> conforming_listing data = None)"

text \<open>
  The failing call and the catalog entry stated on the reply alone, for the amended
  property. The tools a body lists: the records of \<open>result.tools\<close>; an empty text or an
  empty record in the place of the array lists no tool. A call fails when it raises,
  when its status is not 200, when its body does not decode, or when its body lists no
  tools in this sense. The entry of a listed tool holds its \<open>name\<close> and its
  \<open>description\<close> (the empty text when missing) and the name of the backend.
\<close>

fun listed_tools :: "json \<Rightarrow> json list option" where
  "listed_tools (JObj kvs) =
     (case map_of kvs ''result'' of
        Some (JObj res) \<Rightarrow>
          (case map_of res ''tools'' of
             Some (JArr ts) \<Rightarrow> if list_all is_record ts then Some ts else None
           | Some (JStr t) \<Rightarrow> if t = [] then Some [] else None
           | Some (JObj m) \<Rightarrow> if m = [] then Some [] else None
           | other \<Rightarrow> None)
      | other \<Rightarrow> None)"
| "listed_tools body = None"

definition tool_entry :: "string \<Rightarrow> json \<Rightarrow> json" where
  "tool_entry backend_name tool =
     JObj [(''name'', case field tool ''name'' of None \<Rightarrow> JStr [] | Some v \<Rightarrow> v),
           (''description'', case field tool ''description'' of None \<Rightarrow> JStr [] | Some v \<Rightarrow> v),
           (''server'', JStr backend_name)]"

fun list_fails :: "string \<times> server_config \<Rightarrow> http_result \<Rightarrow> bool" where
  "list_fails backend (HttpRaised m) = True"
| "list_fails backend (HttpResponse status_code (Inl m)) = True"
| "list_fails backend (HttpResponse status_code (Inr data)) =
     (status_code \<noteq> 200 \<or> listed_tools data = None)"

fun entries_of :: "string \<times> server_config \<Rightarrow> http_result \<Rightarrow> json list" where
  "entries_of backend (HttpResponse status_code (Inr data)) =
     (case listed_tools data of
        None \<Rightarrow> []
      | Some ts \<Rightarrow> map (tool_entry (fst backend)) ts)"
| "entries_of backend r = []"

text \<open>The arguments the executor passes to \<open>execute_tool\<close> for a step.\<close>

definition step_arg :: "json \<Rightarrow> string \<Rightarrow> json \<Rightarrow> json" where
  "step_arg step key dflt = (case field step key of None \<Rightarrow> dflt | Some v \<Rightarrow> v)"

definition outcome_for :: "agent_env \<Rightarrow> agent \<Rightarrow> json \<Rightarrow> json \<Rightarrow> bool" where
  "outcome_for env self step outcome =
     (\<exists>h h'. execute_tool env self (step_arg step ''server'' JNull) (step_arg step ''tool'' JNull)
                (step_arg step ''arguments'' (JObj [])) h = (Inr outcome, h'))"

subsection \<open>A concrete world for examples\<close>

definition echo_listing :: json where
  "echo_listing =
     JObj [(''result'', JObj [(''tools'',
       JArr [JObj [(''name'', JStr ''echo''), (''description'', JStr ''Echo the input'')]])])]"

definition echo_reply :: json where
  "echo_reply = JObj [(''result'', JObj [(''content'', JArr [JObj [(''text'', JStr ''1'')]])])]"

definition demo_plan :: json where
  "demo_plan =
     JObj [(''reasoning'', JStr ''use echo''),
           (''steps'', JArr
              [JObj [(''step'', JInt 1), (''action'', JStr ''tool_execution''),
                     (''server'', JStr ''tool_b''), (''tool'', JStr ''echo''),
                     (''arguments'', JObj [(''x'', JInt 1)])],
               JObj [(''step'', JInt 2), (''action'', JStr ''think'')],
               JObj [(''step'', JInt 3), (''action'', JStr ''tool_execution''),
                     (''server'', JStr ''slack_mcp''), (''tool'', JStr ''echo''),
                     (''arguments'', JObj [(''x'', JInt 1)])]])]"

text \<open>
  Both probes answer 200; the Slack backend lists one tool and answers a tool call with
  the text \<open>1\<close>, the search backend times out; the completion service returns the text
  \<open>PLAN\<close>, which decodes to \<^const>\<open>demo_plan\<close>, for a plan and \<open>done\<close> for a synthesis.
\<close>

definition demo_http :: "history \<Rightarrow> call \<Rightarrow> http_result" where
  "demo_http h c =
     (case c of
        ProbeGet u t \<Rightarrow> HttpResponse 200 (Inl ''Expecting value'')
      | ToolsList u t \<Rightarrow>
          if u = ''http://localhost:8001/mcp'' then HttpResponse 200 (Inr echo_listing)
          else HttpRaised ''timed out''
      | ToolsCall u tool arguments t \<Rightarrow> HttpResponse 200 (Inr echo_reply)
      | PlanCompletion r ts ctx \<Rightarrow> HttpRaised ''not an HTTP call''
      | SynthesisCompletion r p rs \<Rightarrow> HttpRaised ''not an HTTP call'')"

definition demo_complete :: "history \<Rightarrow> call \<Rightarrow> completion_result" where
  "demo_complete h c =
     (case c of
        PlanCompletion r ts ctx \<Rightarrow> CompletionChoices [Some ''PLAN'']
      | SynthesisCompletion r p rs \<Rightarrow> CompletionChoices [Some ''done'']
      | ProbeGet u t \<Rightarrow> CompletionRaised ''not a completion''
      | ToolsList u t \<Rightarrow> CompletionRaised ''not a completion''
      | ToolsCall u tool arguments t \<Rightarrow> CompletionRaised ''not a completion'')"

definition demo_loads :: "string \<Rightarrow> string + json" where
  "demo_loads t =
     (if t = ''PLAN'' then Inr demo_plan
      else if t = ''{}'' then Inr (JObj [])
      else Inl ''Expecting value'')"

definition demo_env :: agent_env where
  "demo_env = \<lparr> http = demo_http, complete = demo_complete, json_loads = demo_loads \<rparr>"

definition demo_agent :: agent where
  "demo_agent = \<lparr> openai_client = True, available_servers = servers, tool_registry = [] \<rparr>"

definition demo_server :: slack_server where
  "demo_server = \<lparr> slack_client = True, bot_user_id = Some ''U0BOT'' \<rparr>"

definition demo_startup :: startup where
  "demo_startup = \<lparr> slack_bot_token = Some ''xoxb-1'', auth_test = AuthResponse (Some ''U0BOT'') \<rparr>"

definition mention :: "string \<Rightarrow> string \<Rightarrow> string \<Rightarrow> socket_request" where
  "mention envelope user text =
     \<lparr> envelope_id = envelope, req_type = ''events_api'',
       payload_event = Some \<lparr> ev_type = Some ''app_mention'', ev_channel = Some ''C1'',
                               ev_user = Some user, ev_text = Some text \<rparr> \<rparr>"

text \<open>Two worlds for the catalog: one where every backend answers \<open>tools/list\<close> with
  status 201 and a conforming listing, one where every backend answers with status 200
  and a body whose \<open>tools\<close> is an empty record.\<close>

definition created_env :: agent_env where
  "created_env = demo_env\<lparr>http := (\<lambda>h c. HttpResponse 201 (Inr echo_listing))\<rparr>"

definition empty_record_env :: agent_env where
  "empty_record_env =
     demo_env\<lparr>http := (\<lambda>h c. HttpResponse 200
                                  (Inr (JObj [(''result'', JObj [(''tools'', JObj [])])])))\<rparr>"

text \<open>Two variants: a completion service that answers every request with a text that
  is not JSON, and one whose synthesis call raises.\<close>

definition no_json_env :: agent_env where
  "no_json_env = demo_env\<lparr>complete := (\<lambda>h c. CompletionChoices [Some ''Sorry, no plan''])\<rparr>"

definition broken_synthesis_env :: agent_env where
  "broken_synthesis_env =
     demo_env\<lparr>complete := (\<lambda>h c. if is_synthesis c then CompletionRaised ''rate limit''
                                   else demo_complete h c)\<rparr>"

section \<open>Properties of the event router\<close>

subsection \<open>Classification\<close>

text \<open>
  C5. Classification matches keywords as substrings of the lower-cased text, the search
  keywords first: a text is routed to the web search exactly when it contains a search
  keyword (whether or not it also contains a structured-query keyword), to the
  structured query exactly when it contains a structured-query keyword and no search
  keyword, and to free chat exactly when it contains neither; two texts that differ in
  letter case only are routed alike.
\<close>

theorem analyze_query_type_priority:
  "(analyze_query_type l q = ''web_search'' \<longleftrightarrow>
      (\<exists>kw \<in> set search_keywords. sublist kw (str_lower l q))) \<and>
   (analyze_query_type l q = ''slack_query'' \<longleftrightarrow>
      \<not> (\<exists>kw \<in> set search_keywords. sublist kw (str_lower l q)) \<and>
      (\<exists>kw \<in> set slack_keywords. sublist kw (str_lower l q))) \<and>
   (analyze_query_type l q = ''general_chat'' \<longleftrightarrow>
      \<not> (\<exists>kw \<in> set search_keywords. sublist kw (str_lower l q)) \<and>
      \<not> (\<exists>kw \<in> set slack_keywords. sublist kw (str_lower l q))) \<and>
   (str_lower l q = str_lower l q' \<longrightarrow> analyze_query_type l q = analyze_query_type l q')"
  by (simp add: analyze_query_type_def Let_def list_ex_iff)

theorem analyze_query_type_priority_witness:
  "(\<exists>kw \<in> set search_keywords.
      sublist kw (str_lower ascii_lib ''SEARCH the #general Channel discussion'')) \<and>
   (\<exists>kw \<in> set slack_keywords.
      sublist kw (str_lower ascii_lib ''SEARCH the #general Channel discussion'')) \<and>
   analyze_query_type ascii_lib ''SEARCH the #general Channel discussion'' = ''web_search'' \<and>
   analyze_query_type ascii_lib ''search the #general channel discussion'' = ''web_search''"
proof -
  let ?q = "''SEARCH the #general Channel discussion''"
  let ?q' = "''search the #general channel discussion''"
  have a: "\<exists>kw \<in> set search_keywords. sublist kw (str_lower ascii_lib ?q)"
    by code_simp
  have b: "\<exists>kw \<in> set slack_keywords. sublist kw (str_lower ascii_lib ?q)"
    by code_simp
  have c: "str_lower ascii_lib ?q = str_lower ascii_lib ?q'"
    by code_simp
  from analyze_query_type_priority [of ascii_lib ?q ?q'] a c
  have "analyze_query_type ascii_lib ?q = ''web_search''"
    and "analyze_query_type ascii_lib ?q = analyze_query_type ascii_lib ?q'"
    by blast+
  with a b show ?thesis by simp
qed

subsection \<open>Acknowledgment\<close>

text \<open>
  C4. For every inbound request the first observable effect of the listener is the
  acknowledgment carrying the envelope identifier of the request: whatever
  classification or dispatch effect occurs, occurs at a later position.
\<close>

theorem ack_before_processing:
  "take 1 (handle_socket_mode_request env self req) = [Ack (envelope_id req)] \<and>
   (\<forall>i < length (handle_socket_mode_request env self req).
      is_processing (handle_socket_mode_request env self req ! i) \<longrightarrow>
      0 < i \<and> handle_socket_mode_request env self req ! 0 = Ack (envelope_id req))"
proof -
  have "handle_socket_mode_request env self req =
          Ack (envelope_id req) # tl (handle_socket_mode_request env self req)"
    by (simp add: handle_socket_mode_request_def)
  then obtain rest where t: "handle_socket_mode_request env self req = Ack (envelope_id req) # rest"
    by blast
  show ?thesis
    unfolding t by (auto simp: nth_Cons split: nat.splits)
qed

theorem ack_before_processing_witness:
  "1 < length (handle_socket_mode_request demo_router_env demo_server (mention ''E1'' ''U1'' ''hello'')) \<and>
   is_processing
     (handle_socket_mode_request demo_router_env demo_server (mention ''E1'' ''U1'' ''hello'') ! 1) \<and>
   handle_socket_mode_request demo_router_env demo_server (mention ''E1'' ''U1'' ''hello'') ! 0 = Ack ''E1''"
proof -
  let ?t = "handle_socket_mode_request demo_router_env demo_server (mention ''E1'' ''U1'' ''hello'')"
  have t: "?t = [Ack ''E1'', Classify ''hello'', Dispatch ''general_chat'' ''hello'' ''C1'',
                 PostMessage ''C1'' ''chat'']"
    by code_simp
  have l: "1 < length ?t" and p: "is_processing (?t ! 1)"
    by (simp_all add: t)
  from ack_before_processing [of demo_router_env demo_server "mention ''E1'' ''U1'' ''hello''"] l p
  have "?t ! 0 = Ack (envelope_id (mention ''E1'' ''U1'' ''hello''))"
    by blast
  with l p show ?thesis by (simp add: mention_def)
qed

subsection \<open>Silent termination\<close>

text \<open>With the fields of the server object as they are when the event arrives, an
  event of the bot itself, or one whose cleaned text is empty, is dropped.\<close>

lemma handle_app_mention_silent:
  "ev_user ev = bot_user_id self \<or>
   clean_mention_text (lib env) self (case ev_text ev of None \<Rightarrow> [] | Some t \<Rightarrow> t) = [] \<Longrightarrow>
   handle_app_mention env self ev = ([], False)"
  by (auto simp: handle_app_mention_def validate_mention_event_def Let_def split: option.splits)

text \<open>But construction never leaves the authenticated user id in the object: the id
  stored by \<open>_initialize_slack_client\<close> is overwritten by the later statement of
  \<open>__init__\<close>.\<close>

lemma init_server_bot_user_id: "bot_user_id (init_server su) = None"
  by (simp add: init_server_def Let_def split: prod.splits)

lemma clean_mention_text_after_init: "clean_mention_text l (init_server su) text = text"
  by (simp add: clean_mention_text_def init_server_bot_user_id)

text \<open>
  C10. A mention whose originator is the bot's own user id, or whose text is empty once
  the bot-mention token is stripped, should end silently. On a server object built by
  \<open>__init__\<close> after a successful authentication as \<open>U0BOT\<close>, a mention sent by
  \<open>U0BOT\<close> is classified, dispatched and answered, and so is a mention by another user
  whose text is the bot-mention token alone.
\<close>

theorem self_mention_is_dispatched:
  "bot_user_id (init_server demo_startup) = None \<and>
   handle_socket_mode_request demo_router_env (init_server demo_startup)
       (mention ''E1'' ''U0BOT'' ''hello'') =
     [Ack ''E1'', Classify ''hello'', Dispatch ''general_chat'' ''hello'' ''C1'',
      PostMessage ''C1'' ''chat''] \<and>
   handle_socket_mode_request demo_router_env (init_server demo_startup)
       (mention ''E2'' ''U1'' ''<@U0BOT>'') =
     [Ack ''E2'', Classify ''<@U0BOT>'', Dispatch ''general_chat'' ''<@U0BOT>'' ''C1'',
      PostMessage ''C1'' ''chat'']"
  by code_simp

section \<open>Properties of the backend registry and the tool catalog\<close>

lemma update_fresh: "k \<notin> fst ` set al \<Longrightarrow> AList.update k v al = al @ [(k, v)]"
  by (induction al) auto

lemma discover_loop_history: "snd (discover_loop env reg acc h) = h @ list_events reg"
  by (induction reg arbitrary: acc h) (auto simp: list_events_def http_call_def)

lemma probe_servers_history: "snd (probe_servers env cands acc h) = h @ probe_events cands"
  by (induction cands arbitrary: acc h)
     (auto simp: probe_events_def test_server_def http_call_def probe_of_def split: http_result.splits)

lemma test_server_live:
  "test_server env (url config) h =
     (live_reply (http env h (probe_of config)), h @ [Issued (probe_of config), Completed (probe_of config)])"
  by (simp add: test_server_def http_call_def probe_of_def split: http_result.splits)

lemma probe_servers_registry:
  "distinct (map fst cands) \<Longrightarrow> fst ` set acc \<inter> fst ` set cands = {} \<Longrightarrow>
   fst (probe_servers env cands acc h) =
     acc @ map fst (filter (\<lambda>(b, r). live_reply r) (zip cands (probe_replies env h cands)))"
proof (induction cands arbitrary: acc h)
  case Nil
  then show ?case by simp
next
  case (Cons p cands)
  obtain name config where p: "p = (name, config)" by (cases p)
  have fresh: "name \<notin> fst ` set acc" and d: "distinct (map fst cands)"
    and ncands: "name \<notin> fst ` set cands"
    using Cons.prems p by auto
  have a1: "fst ` set acc \<inter> fst ` set cands = {}" using Cons.prems by auto
  have a2: "fst ` set (acc @ [(name, config)]) \<inter> fst ` set cands = {}"
    using Cons.prems ncands by auto
  show ?case
    using Cons.IH[OF d a1] Cons.IH[OF d a2]
    by (simp add: p test_server_live update_fresh[OF fresh])
qed


lemma length_probe_replies: "length (probe_replies env h cands) = length cands"
  by (induction cands arbitrary: h) auto

lemma length_list_replies: "length (list_replies env h reg) = length reg"
  by (induction reg arbitrary: h) auto

lemma live_reply_iff:
  "live_reply r \<longleftrightarrow> (\<exists>status_code body. r = HttpResponse status_code body \<and> status_code < 500)"
  by (cases r) auto

lemma probe_replies_servers:
  "probe_replies env h servers =
     [http env h (ProbeGet ''http://localhost:8001'' 2),
      http env (h @ [Issued (ProbeGet ''http://localhost:8001'' 2),
                     Completed (ProbeGet ''http://localhost:8001'' 2)])
        (ProbeGet ''http://localhost:8002'' 2)]"
proof -
  have a: "str_replace ''/mcp'' [] ''http://localhost:8001/mcp'' = ''http://localhost:8001''"
    by code_simp
  have b: "str_replace ''/mcp'' [] ''http://localhost:8002/mcp'' = ''http://localhost:8002''"
    by code_simp
  show ?thesis
    by (simp only: servers_def probe_replies.simps probe_of_def server_config.simps a b)
qed

text \<open>
  C8. The registry built at construction holds exactly the candidates whose liveness
  probe is live, in the order of the candidates. The probe is a GET of the address with
  \<open>/mcp\<close> removed (for the two candidates of the program: \<open>http://localhost:8001\<close> and
  \<open>http://localhost:8002\<close>) with a time-out of 2; it is live exactly when it returns a
  response whose status is below 500, and not when it raises (time-out or any other
  error). Discovery always returns a registry.
\<close>

theorem discover_servers_liveness:
  "(distinct (map fst cands) \<longrightarrow>
      fst (probe_servers env cands [] h) =
        map fst (filter (\<lambda>(b, r). live_reply r) (zip cands (probe_replies env h cands)))) \<and>
   fst (discover_servers env h) =
     map fst (filter (\<lambda>(b, r). live_reply r) (zip servers (probe_replies env h servers))) \<and>
   probe_replies env h servers =
     [http env h (ProbeGet ''http://localhost:8001'' 2),
      http env (h @ [Issued (ProbeGet ''http://localhost:8001'' 2),
                     Completed (ProbeGet ''http://localhost:8001'' 2)])
        (ProbeGet ''http://localhost:8002'' 2)] \<and>
   (live_reply r \<longleftrightarrow>
      (\<exists>status_code body. r = HttpResponse status_code body \<and> status_code < 500))"
proof -
  have d: "distinct (map fst servers)"
    by (simp add: servers_def)
  have "fst (discover_servers env h) =
          map fst (filter (\<lambda>(b, r). live_reply r) (zip servers (probe_replies env h servers)))"
    unfolding discover_servers_def using probe_servers_registry [OF d, of "[]" env h] by simp
  moreover have "distinct (map fst cands) \<longrightarrow>
      fst (probe_servers env cands [] h) =
        map fst (filter (\<lambda>(b, r). live_reply r) (zip cands (probe_replies env h cands)))"
    using probe_servers_registry [of cands "[]" env h] by simp
  ultimately show ?thesis
    using probe_replies_servers [of env h] live_reply_iff [of r] by blast
qed

theorem discover_servers_liveness_witness:
  "distinct (map fst servers) \<and>
   fst (probe_servers (demo_env\<lparr>http := (\<lambda>h c. if c = ProbeGet ''http://localhost:8001'' 2
                                               then HttpResponse 404 (Inl [])
                                               else HttpResponse 500 (Inl []))\<rparr>) servers [] []) =
     [(''slack_mcp'', \<lparr> url = ''http://localhost:8001/mcp'',
                        description = ''Slack workspace management'' \<rparr>)]"
proof -
  let ?env = "demo_env\<lparr>http := (\<lambda>h c. if c = ProbeGet ''http://localhost:8001'' 2
                                       then HttpResponse 404 (Inl [])
                                       else HttpResponse 500 (Inl []))\<rparr>"
  have d: "distinct (map fst servers)"
    by (simp add: servers_def)
  have e: "map fst (filter (\<lambda>(b, r). live_reply r) (zip servers (probe_replies ?env [] servers))) =
           [(''slack_mcp'', \<lparr> url = ''http://localhost:8001/mcp'',
                        description = ''Slack workspace management'' \<rparr>)]"
    by code_simp
  from discover_servers_liveness [of servers ?env "[]"] d e show ?thesis
    by simp
qed

lemma tool_entries_records:
  "list_all is_record ts \<Longrightarrow> tool_entries n ts = Inr (map (tool_entry n) ts)"
proof (induction ts)
  case Nil
  then show ?case by simp
next
  case (Cons t ts)
  then obtain kvs where "t = JObj kvs" by (cases t) auto
  with Cons show ?case
    by (simp add: and_then_def tool_entry_def)
qed

lemma tool_entries_not_records:
  "\<not> list_all is_record ts \<Longrightarrow> \<exists>e. tool_entries n ts = Inl e"
proof (induction ts)
  case Nil
  then show ?case by simp
next
  case (Cons t ts)
  show ?case
  proof (cases "is_record t")
    case False
    then show ?thesis by (cases t) (auto simp: and_then_def)
  next
    case True
    then obtain kvs where t: "t = JObj kvs" by (cases t) auto
    from True Cons.prems have "\<not> list_all is_record ts" by simp
    from Cons.IH[OF this] obtain e where "tool_entries n ts = Inl e" by blast
    then show ?thesis by (simp add: t and_then_def)
  qed
qed

lemma tool_entries_text: "s \<noteq> [] \<Longrightarrow> \<exists>e. tool_entries n (map JStr (chars_of s)) = Inl e"
  by (cases s) (auto simp: and_then_def)

lemma tool_entries_keys: "m \<noteq> [] \<Longrightarrow> \<exists>e. tool_entries n (map (\<lambda>kv. JStr (fst kv)) m) = Inl e"
  by (cases m) (auto simp: and_then_def)

text \<open>What the code does with the value of \<open>result.tools\<close>.\<close>

lemma entries_of_tools:
  "and_then (py_iter tools) (\<lambda>ts. and_then (tool_entries n ts) (\<lambda>entries. Inr (Some entries))) =
     Inr (Some es) \<longleftrightarrow>
   (\<exists>ts. (case tools of
            JArr xs \<Rightarrow> if list_all is_record xs then Some xs else None
          | JStr t \<Rightarrow> if t = [] then Some [] else None
          | JObj m \<Rightarrow> if m = [] then Some [] else None
          | other \<Rightarrow> None) = Some ts \<and> es = map (tool_entry n) ts)"
proof (cases tools)
  case (JArr xs)
  show ?thesis
  proof (cases "list_all is_record xs")
    case True
    then show ?thesis
      by (auto simp: JArr and_then_def tool_entries_records)
  next
    case False
    from tool_entries_not_records[OF this, of n] show ?thesis
      by (auto simp: JArr and_then_def False)
  qed
next
  case (JStr t)
  show ?thesis
  proof (cases "t = []")
    case True
    then show ?thesis by (auto simp: JStr and_then_def)
  next
    case False
    from tool_entries_text[OF this, of n] show ?thesis
      by (auto simp: JStr and_then_def False)
  qed
next
  case (JObj m)
  show ?thesis
  proof (cases "m = []")
    case True
    then show ?thesis by (auto simp: JObj and_then_def)
  next
    case False
    from tool_entries_keys[OF this, of n] show ?thesis
      by (auto simp: JObj and_then_def False)
  qed
qed (auto simp: and_then_def)

lemma tools_of_body:
  "tools_of_reply n (HttpResponse 200 (Inr data)) = Inr (Some es) \<longleftrightarrow>
   (\<exists>ts. listed_tools data = Some ts \<and> es = map (tool_entry n) ts)"
proof (cases data)
  case (JObj kvs)
  show ?thesis
  proof (cases "map_of kvs ''result''")
    case None
    then show ?thesis
      by (simp add: JObj tools_of_reply_def and_then_def)
  next
    case (Some res)
    show ?thesis
    proof (cases res)
      case (JObj rkvs)
      show ?thesis
      proof (cases "map_of rkvs ''tools''")
        case None
        then show ?thesis
          by (simp add: \<open>data = JObj kvs\<close> Some JObj tools_of_reply_def and_then_def)
      next
        case (Some tools)
        have "tools_of_reply n (HttpResponse 200 (Inr data)) =
                and_then (py_iter tools)
                  (\<lambda>ts. and_then (tool_entries n ts) (\<lambda>entries. Inr (Some entries)))"
          by (simp add: \<open>data = JObj kvs\<close> \<open>map_of kvs ''result'' = Some res\<close> JObj Some
                tools_of_reply_def and_then_def)
        moreover have "listed_tools data =
                (case tools of
                   JArr xs \<Rightarrow> if list_all is_record xs then Some xs else None
                 | JStr t \<Rightarrow> if t = [] then Some [] else None
                 | JObj m \<Rightarrow> if m = [] then Some [] else None
                 | other \<Rightarrow> None)"
          by (simp add: \<open>data = JObj kvs\<close> \<open>map_of kvs ''result'' = Some res\<close> JObj Some
                split: json.splits)
        ultimately show ?thesis
          using entries_of_tools [of tools n es] by simp
      qed
    qed (auto simp: \<open>data = JObj kvs\<close> Some tools_of_reply_def and_then_def)
  qed
qed (auto simp: tools_of_reply_def and_then_def)

lemma tools_of_reply_keeps:
  "\<not> list_fails b r \<Longrightarrow> tools_of_reply (fst b) r = Inr (Some (entries_of b r))"
proof (cases r)
  case (HttpRaised m)
  then show "\<not> list_fails b r \<Longrightarrow> ?thesis" by simp
next
  case (HttpResponse status_code body)
  assume nf: "\<not> list_fails b r"
  then obtain data ts where b: "body = Inr data" and s: "status_code = 200"
    and l: "listed_tools data = Some ts"
    by (cases body) (auto simp: HttpResponse)
  have "tools_of_reply (fst b) (HttpResponse 200 (Inr data)) = Inr (Some (map (tool_entry (fst b)) ts))"
    using tools_of_body [of "fst b" data "map (tool_entry (fst b)) ts"] l by simp
  then show ?thesis
    by (simp add: HttpResponse b s l)
qed

lemma tools_of_reply_drops:
  "list_fails b r \<Longrightarrow> tools_of_reply (fst b) r \<noteq> Inr (Some es)"
proof (cases r)
  case (HttpRaised m)
  then show ?thesis by (simp add: tools_of_reply_def)
next
  case (HttpResponse status_code body)
  assume f: "list_fails b r"
  show ?thesis
  proof (cases "status_code = 200")
    case False
    then show ?thesis by (simp add: HttpResponse tools_of_reply_def)
  next
    case True
    show ?thesis
    proof (cases body)
      case (Inl m)
      then show ?thesis by (simp add: HttpResponse True tools_of_reply_def)
    next
      case (Inr data)
      with f True have "listed_tools data = None" by (simp add: HttpResponse)
      with tools_of_body [of "fst b" data es] show ?thesis
        by (simp add: HttpResponse True Inr)
    qed
  qed
qed

lemma discover_loop_catalog:
  "distinct (map fst reg) \<Longrightarrow> fst ` set acc \<inter> fst ` set reg = {} \<Longrightarrow>
   fst (discover_loop env reg acc h) =
     acc @ map (\<lambda>(b, r). (fst b, entries_of b r))
            (filter (\<lambda>(b, r). \<not> list_fails b r) (zip reg (list_replies env h reg)))"
proof (induction reg arbitrary: acc h)
  case Nil
  then show ?case by simp
next
  case (Cons p reg)
  obtain name config where p: "p = (name, config)" by (cases p)
  let ?c = "ToolsList (url config) 10"
  let ?r = "http env h ?c"
  let ?h' = "h @ [Issued ?c, Completed ?c]"
  have fresh: "name \<notin> fst ` set acc" and d: "distinct (map fst reg)"
    and nreg: "name \<notin> fst ` set reg"
    using Cons.prems p by auto
  show ?case
  proof (cases "list_fails p ?r")
    case True
    from tools_of_reply_drops [OF True]
    have "\<And>es. tools_of_reply name ?r \<noteq> Inr (Some es)"
      by (simp add: p)
    then have step: "discover_loop env (p # reg) acc h = discover_loop env reg acc ?h'"
      by (auto simp: p http_call_def split: sum.splits option.splits)
    have "fst ` set acc \<inter> fst ` set reg = {}" using Cons.prems by auto
    from Cons.IH[OF d this, of ?h'] True show ?thesis
      unfolding step by (simp add: p)
  next
    case False
    from tools_of_reply_keeps [OF False]
    have es: "tools_of_reply name ?r = Inr (Some (entries_of p ?r))"
      by (simp add: p)
    have step: "discover_loop env (p # reg) acc h =
                  discover_loop env reg (acc @ [(name, entries_of p ?r)]) ?h'"
      by (simp add: p http_call_def es update_fresh[OF fresh])
    have "fst ` set (acc @ [(name, entries_of p ?r)]) \<inter> fst ` set reg = {}"
      using Cons.prems nreg by auto
    from Cons.IH[OF d this, of ?h'] False show ?thesis
      unfolding step by (simp add: p)
  qed
qed

text \<open>How the two notions of failure differ: a conforming listing is a listing in both
  senses, and a failure in the words of the specification is a failure of the code as
  well, unless it is a reply with status 200 that has an empty text or an empty record
  in the place of the tool array. (In the other direction a success status other than
  200 fails in the code only.)\<close>

lemma listed_tools_conforming:
  "conforming_listing data = Some ts \<Longrightarrow> listed_tools data = Some ts"
  by (cases data) (auto split: option.splits json.splits if_splits)

lemma claimed_failure_list_fails:
  "claimed_failure r \<Longrightarrow>
   list_fails b r \<or>
   (\<exists>data. r = HttpResponse 200 (Inr data) \<and> conforming_listing data = None \<and>
           listed_tools data = Some [])"
proof (cases r)
  case (HttpRaised m)
  then show ?thesis by simp
next
  case (HttpResponse status_code body)
  assume c: "claimed_failure r"
  show ?thesis
  proof (cases body)
    case (Inl m)
    then show ?thesis by (simp add: HttpResponse)
  next
    case (Inr data)
    show ?thesis
    proof (cases "status_code = 200")
      case False
      then show ?thesis by (simp add: HttpResponse Inr)
    next
      case True
      with c have n: "conforming_listing data = None"
        by (simp add: HttpResponse Inr success_status_def)
      then have "listed_tools data = None \<or> listed_tools data = Some []"
        by (cases data) (auto split: option.splits json.splits if_splits)
      with n show ?thesis
        by (auto simp: HttpResponse Inr True)
    qed
  qed
qed

text \<open>
  C6. With \<open>N\<close> backends in the registry of which \<open>K\<close> fail their \<open>tools/list\<close> call
  in the words of the specification (time-out, non-success status, malformed response),
  the catalog need not have \<open>N - K\<close> entries. Two backends that answer with status 201
  and a conforming listing do not fail, and the catalog is empty; two backends that
  answer 200 with a body whose \<open>tools\<close> is an empty record both fail, and the catalog
  has an entry for each.
\<close>

theorem catalog_is_not_claimed_successes:
  "length (filter (\<lambda>(b, r). claimed_failure r)
             (zip (available_servers demo_agent)
                  (list_replies created_env [] (available_servers demo_agent)))) = 0 \<and>
   length (available_servers demo_agent) = 2 \<and>
   fst (discover_tools created_env demo_agent []) = [] \<and>
   length (filter (\<lambda>(b, r). claimed_failure r)
             (zip (available_servers demo_agent)
                  (list_replies empty_record_env [] (available_servers demo_agent)))) = 2 \<and>
   fst (discover_tools empty_record_env demo_agent []) = [(''slack_mcp'', []), (''tavily_mcp'', [])]"
  by code_simp

text \<open>
  C6, as the code has it. With \<open>N\<close> backends in the registry of which \<open>K\<close> fail their
  \<open>tools/list\<close> call, a call failing when it raises (time-out, transport error), when
  its status is not 200, when its body does not decode, or when its body does not carry
  \<open>result.tools\<close> as a sequence of records (an empty text or empty record in its place
  counting as the empty sequence), the catalog has, in registry order, one entry for each
  of the \<open>N - K\<close> others and none for a failing one; the entry of a backend holds, for
  each tool its reply lists, the name and description of the tool and the name of the
  backend. The build itself always returns a catalog.
\<close>

theorem discover_tools_partial_catalog:
  assumes "distinct (map fst (available_servers self))"
  shows "fst (discover_tools env self h) =
           map (\<lambda>(b, r). (fst b, entries_of b r))
             (filter (\<lambda>(b, r). \<not> list_fails b r)
                (zip (available_servers self) (list_replies env h (available_servers self)))) \<and>
         length (fst (discover_tools env self h)) =
           length (available_servers self) -
           length (filter (\<lambda>(b, r). list_fails b r)
                     (zip (available_servers self) (list_replies env h (available_servers self))))"
proof -
  let ?reg = "available_servers self"
  let ?z = "zip ?reg (list_replies env h ?reg)"
  have cat: "fst (discover_tools env self h) =
               map (\<lambda>(b, r). (fst b, entries_of b r)) (filter (\<lambda>(b, r). \<not> list_fails b r) ?z)"
    using discover_loop_catalog [OF assms, of "[]" env h]
    by (simp add: discover_tools_def case_prod_beta)
  have "length (filter (\<lambda>(b, r). list_fails b r) ?z) +
        length (filter (\<lambda>(b, r). \<not> list_fails b r) ?z) = length ?z"
    using sum_length_filter_compl [of "\<lambda>(b, r). list_fails b r" ?z]
    by (simp add: split_def)
  then have len: "length (fst (discover_tools env self h)) =
                    length ?reg - length (filter (\<lambda>(b, r). list_fails b r) ?z)"
    by (simp add: cat length_list_replies)
  show ?thesis
    using cat len by blast
qed

theorem discover_tools_partial_catalog_witness:
  "distinct (map fst (available_servers demo_agent)) \<and>
   length (available_servers demo_agent) = 2 \<and>
   length (filter (\<lambda>(b, r). list_fails b r)
             (zip (available_servers demo_agent)
                  (list_replies demo_env [] (available_servers demo_agent)))) = 1 \<and>
   fst (discover_tools demo_env demo_agent []) =
     [(''slack_mcp'', [JObj [(''name'', JStr ''echo''), (''description'', JStr ''Echo the input''),
                             (''server'', JStr ''slack_mcp'')]])] \<and>
   length (fst (discover_tools demo_env demo_agent [])) = 2 - 1"
proof -
  have d: "distinct (map fst (available_servers demo_agent))"
    by (simp add: demo_agent_def servers_def)
  have n: "length (available_servers demo_agent) = 2"
    by (simp add: demo_agent_def servers_def)
  have k: "length (filter (\<lambda>(b, r). list_fails b r)
             (zip (available_servers demo_agent)
                  (list_replies demo_env [] (available_servers demo_agent)))) = 1"
    by code_simp
  have e: "map (\<lambda>(b, r). (fst b, entries_of b r))
             (filter (\<lambda>(b, r). \<not> list_fails b r)
                (zip (available_servers demo_agent)
                   (list_replies demo_env [] (available_servers demo_agent)))) =
           [(''slack_mcp'', [JObj [(''name'', JStr ''echo''), (''description'', JStr ''Echo the input''),
                                   (''server'', JStr ''slack_mcp'')]])]"
    by code_simp
  from discover_tools_partial_catalog [OF d, of demo_env "[]"]
  have c1: "fst (discover_tools demo_env demo_agent []) =
              map (\<lambda>(b, r). (fst b, entries_of b r))
                (filter (\<lambda>(b, r). \<not> list_fails b r)
                   (zip (available_servers demo_agent)
                      (list_replies demo_env [] (available_servers demo_agent))))"
    and c2: "length (fst (discover_tools demo_env demo_agent [])) =
               length (available_servers demo_agent) -
               length (filter (\<lambda>(b, r). list_fails b r)
                         (zip (available_servers demo_agent)
                            (list_replies demo_env [] (available_servers demo_agent))))"
    by blast+
  have "fst (discover_tools demo_env demo_agent []) =
          [(''slack_mcp'', [JObj [(''name'', JStr ''echo''), (''description'', JStr ''Echo the input''),
                                  (''server'', JStr ''slack_mcp'')]])]"
    by (simp only: c1 e)
  moreover have "length (fst (discover_tools demo_env demo_agent [])) = 2 - 1"
    by (simp only: c2 n k)
  ultimately show ?thesis
    using d n k by blast
qed

text \<open>
  C7. The discovery calls are not issued in parallel: for the registry of the two
  backends, the second call is issued after the first has completed.
\<close>

theorem discovery_is_not_fan_out:
  "\<not> fan_out_fan_in (snd (snd (discover_tools demo_env demo_agent [])))"
  by code_simp

text \<open>
  C7, as the code has it. The discovery calls are issued one after another in registry
  order: the history of a discovery is, for each backend in turn, the issue of its
  \<open>tools/list\<close> call followed by its completion. All of them have completed when
  discovery returns, before planning proceeds.
\<close>

theorem discover_tools_sequential:
  "snd (snd (discover_tools env self h)) = h @ list_events (available_servers self)"
  using discover_loop_history [of env "available_servers self" "[]" h]
  by (simp add: discover_tools_def case_prod_beta)

theorem discover_tools_sequential_witness:
  "snd (snd (discover_tools demo_env demo_agent [])) =
     [Issued (ToolsList ''http://localhost:8001/mcp'' 10),
      Completed (ToolsList ''http://localhost:8001/mcp'' 10),
      Issued (ToolsList ''http://localhost:8002/mcp'' 10),
      Completed (ToolsList ''http://localhost:8002/mcp'' 10)]"
  using discover_tools_sequential [of demo_env demo_agent "[]"]
  by (simp add: list_events_def demo_agent_def servers_def)

section \<open>Properties of the plan executor and of the orchestration driver\<close>

lemma run_steps_append:
  "run_steps env self (pre @ post) results h =
     (case run_steps env self pre results h of
        (Inl e, h') \<Rightarrow> (Inl e, h')
      | (Inr rs, h') \<Rightarrow> run_steps env self post rs h')"
  by (induction pre arbitrary: results h)
     (auto simp: and_then_def split: sum.splits prod.splits)

lemma execute_tool_returns:
  "\<not> is_container server \<Longrightarrow> \<exists>out h'. execute_tool env self server tool args h = (Inr out, h')"
  by (cases server) (auto simp: http_call_def split: option.splits sum.splits)

lemma run_steps_other_kind:
  "is_record step \<Longrightarrow> \<not> is_tool_execution step \<Longrightarrow>
   run_steps env self (step # rest) results h = run_steps env self rest results h"
  by (cases step) (auto simp: is_tool_execution_def split: option.splits)

lemma run_steps_tool_execution:
  "is_record step \<Longrightarrow> is_tool_execution step \<Longrightarrow>
   execute_tool env self (step_arg step ''server'' JNull) (step_arg step ''tool'' JNull)
     (step_arg step ''arguments'' (JObj [])) h = (Inr out, h') \<Longrightarrow>
   run_steps env self (step # rest) results h = run_steps env self rest (results @ [out]) h'"
  by (cases step) (auto simp: is_tool_execution_def step_arg_def and_then_def split: option.splits)

lemma run_steps_wf:
  "list_all wf_step steps \<Longrightarrow>
   \<exists>rs h'. run_steps env self steps results h = (Inr (results @ rs), h') \<and>
           list_all2 (outcome_for env self) (filter is_tool_execution steps) rs"
proof (induction steps arbitrary: results h)
  case Nil
  then show ?case by simp
next
  case (Cons step steps)
  then have wf: "wf_step step" and rest: "list_all wf_step steps"
    by simp_all
  from wf have rec: "is_record step"
    by (simp add: wf_step_def)
  show ?case
  proof (cases "is_tool_execution step")
    case False
    from Cons.IH[OF rest, of results h] show ?thesis
      by (simp add: run_steps_other_kind[OF rec False] False del: run_steps.simps)
  next
    case True
    from wf rec have "\<not> is_container (step_arg step ''server'' JNull)"
      by (cases step) (auto simp: wf_step_def step_arg_def split: option.splits)
    from execute_tool_returns[OF this] obtain out h1 where
      ex: "execute_tool env self (step_arg step ''server'' JNull) (step_arg step ''tool'' JNull)
             (step_arg step ''arguments'' (JObj [])) h = (Inr out, h1)"
      by blast
    from Cons.IH[OF rest, of "results @ [out]" h1] obtain rs h' where
      r: "run_steps env self steps (results @ [out]) h1 = (Inr ((results @ [out]) @ rs), h')"
      and a: "list_all2 (outcome_for env self) (filter is_tool_execution steps) rs"
      by blast
    have o: "outcome_for env self step out"
      unfolding outcome_for_def using ex by blast
    show ?thesis
      using r a o
      by (simp add: run_steps_tool_execution[OF rec True ex] True del: run_steps.simps)
  qed
qed

lemma run_steps_filter:
  "list_all wf_step steps \<Longrightarrow>
   run_steps env self steps results h = run_steps env self (filter is_tool_execution steps) results h"
proof (induction steps arbitrary: results h)
  case Nil
  then show ?case by simp
next
  case (Cons step steps)
  then have wf: "wf_step step" and rest: "list_all wf_step steps"
    by simp_all
  from wf have rec: "is_record step"
    by (simp add: wf_step_def)
  show ?case
  proof (cases "is_tool_execution step")
    case False
    with Cons.IH[OF rest] show ?thesis
      by (simp add: run_steps_other_kind[OF rec False] del: run_steps.simps)
  next
    case True
    with Cons.IH[OF rest] show ?thesis
      by (cases step) (auto split: sum.splits prod.splits)
  qed
qed

text \<open>Outside the data model the loop does abort: a step that is not a record, or a
  \<open>tool_execution\<close> step whose backend is a list or a record, raises, and the driver
  returns its \<open>Execution error\<close> text.\<close>

lemma run_steps_not_a_record:
  "\<not> is_record step \<Longrightarrow> \<exists>e. run_steps env self (step # rest) results h = (Inl e, h)"
  by (cases step) auto

lemma run_steps_unhashable_backend:
  "is_record step \<Longrightarrow> is_tool_execution step \<Longrightarrow> is_container (step_arg step ''server'' JNull) \<Longrightarrow>
   \<exists>e. run_steps env self (step # rest) results h = (Inl e, h)"
  by (cases step; cases "step_arg step ''server'' JNull")
     (auto simp: is_tool_execution_def step_arg_def and_then_def split: option.splits)

lemma execute_plan_steps:
  "steps_of plan = Some steps \<Longrightarrow> execute_plan env self plan h = run_steps env self steps [] h"
  by (cases plan) (auto simp: execute_plan_def and_then_def split: option.splits json.splits)

text \<open>
  C1. The outcome of a step whose backend is absent from the registry does not echo the
  backend and the tool: for the registry of the two backends and a step naming
  \<open>tool_b\<close>, the outcome has the fields \<open>success\<close> and \<open>error\<close> only.
\<close>

theorem absent_backend_outcome_has_no_echo:
  "fst (execute_tool demo_env demo_agent (JStr ''tool_b'') (JStr ''echo'') (JObj [(''x'', JInt 1)]) []) =
     Inr (JObj [(''success'', JBool False), (''error'', JStr ''Server tool_b not available'')]) \<and>
   field (JObj [(''success'', JBool False), (''error'', JStr ''Server tool_b not available'')])
     ''server'' \<noteq> Some (JStr ''tool_b'') \<and>
   field (JObj [(''success'', JBool False), (''error'', JStr ''Server tool_b not available'')])
     ''tool'' \<noteq> Some (JStr ''echo'')"
  by code_simp

text \<open>
  C1, as the code has it. A \<open>tool_execution\<close> step whose named backend is absent from
  the registry produces, without any call to a backend, the failure outcome whose
  \<open>error\<close> is \<open>Server <backend> not available\<close>; this outcome has no field for the
  backend or the tool. The run is not aborted: the executor goes on with the steps that
  follow, exactly as it would run them after recording this outcome.
\<close>

theorem absent_backend_fails_and_continues:
  assumes "is_record step" and "is_tool_execution step"
    and "field step ''server'' = Some (JStr b)"
    and "map_of (available_servers self) b = None"
    and "run_steps env self pre results h = (Inr rs, h')"
  shows "execute_tool env self (JStr b) tool arguments h' =
           (Inr (JObj [(''success'', JBool False),
                       (''error'', JStr (''Server '' @ b @ '' not available''))]), h') \<and>
         field (JObj [(''success'', JBool False),
                      (''error'', JStr (''Server '' @ b @ '' not available''))]) ''server'' = None \<and>
         field (JObj [(''success'', JBool False),
                      (''error'', JStr (''Server '' @ b @ '' not available''))]) ''tool'' = None \<and>
         run_steps env self (pre @ step # post) results h =
           run_steps env self post
             (rs @ [JObj [(''success'', JBool False),
                          (''error'', JStr (''Server '' @ b @ '' not available''))]]) h'"
proof -
  let ?out = "JObj [(''success'', JBool False), (''error'', JStr (''Server '' @ b @ '' not available''))]"
  have ex: "execute_tool env self (JStr b) tool arguments h' = (Inr ?out, h')" for tool arguments
    using assms(4) by (simp add: not_available_def failure_def)
  have s: "step_arg step ''server'' JNull = JStr b"
    using assms(3) by (simp add: step_arg_def)
  have "run_steps env self (step # post) rs h' = run_steps env self post (rs @ [?out]) h'"
    using run_steps_tool_execution [OF assms(1) assms(2), of env self h' ?out h' post rs] ex s
    by simp
  then have "run_steps env self (pre @ step # post) results h =
               run_steps env self post (rs @ [?out]) h'"
    by (simp add: run_steps_append [of env self pre] assms(5) del: run_steps.simps)
  with ex show ?thesis by simp
qed

theorem absent_backend_fails_and_continues_witness:
  "is_record (JObj [(''action'', JStr ''tool_execution''), (''server'', JStr ''tool_b''),
                    (''tool'', JStr ''echo'')]) \<and>
   is_tool_execution (JObj [(''action'', JStr ''tool_execution''), (''server'', JStr ''tool_b''),
                            (''tool'', JStr ''echo'')]) \<and>
   map_of (available_servers demo_agent) ''tool_b'' = None \<and>
   run_steps demo_env demo_agent
     ([JObj [(''action'', JStr ''think'')]] @
      JObj [(''action'', JStr ''tool_execution''), (''server'', JStr ''tool_b''),
            (''tool'', JStr ''echo'')] #
      [JObj [(''action'', JStr ''tool_execution''), (''server'', JStr ''slack_mcp''),
             (''tool'', JStr ''echo'')]]) [] [] =
   run_steps demo_env demo_agent
     [JObj [(''action'', JStr ''tool_execution''), (''server'', JStr ''slack_mcp''),
            (''tool'', JStr ''echo'')]]
     [JObj [(''success'', JBool False), (''error'', JStr ''Server tool_b not available'')]] []"
proof -
  let ?step = "JObj [(''action'', JStr ''tool_execution''), (''server'', JStr ''tool_b''),
                     (''tool'', JStr ''echo'')]"
  have a: "is_record ?step" by simp
  have b: "is_tool_execution ?step" by (simp add: is_tool_execution_def)
  have c: "field ?step ''server'' = Some (JStr ''tool_b'')" by simp
  have d: "map_of (available_servers demo_agent) ''tool_b'' = None"
    by (simp add: demo_agent_def servers_def)
  have e: "run_steps demo_env demo_agent [JObj [(''action'', JStr ''think'')]] [] [] = (Inr [], [])"
    by simp
  from absent_backend_fails_and_continues [OF a b c d e] a b d show ?thesis
    by simp
qed

text \<open>
  C2. For every plan of the data model the executor returns an outcome sequence: it
  has as many outcomes as the plan has \<open>tool_execution\<close> steps, the outcome at each
  position is the outcome of \<open>execute_tool\<close> for the \<open>tool_execution\<close> step at that
  position, and the steps of any other kind contribute nothing (the run equals the run of
  the plan with those steps removed).
\<close>

theorem executor_outcomes_align:
  assumes "wf_plan plan"
  shows "\<exists>steps results h'.
           steps_of plan = Some steps \<and>
           execute_plan env self plan h = (Inr results, h') \<and>
           length results = length (filter is_tool_execution steps) \<and>
           list_all2 (outcome_for env self) (filter is_tool_execution steps) results \<and>
           execute_plan env self plan h = run_steps env self (filter is_tool_execution steps) [] h"
proof -
  from assms obtain steps where s: "steps_of plan = Some steps" and wf: "list_all wf_step steps"
    by (auto simp: wf_plan_def split: option.splits)
  from run_steps_wf [OF wf, of env self "[]" h] obtain rs h' where
    r: "run_steps env self steps [] h = (Inr rs, h')"
    and a: "list_all2 (outcome_for env self) (filter is_tool_execution steps) rs"
    by auto
  from a have "length rs = length (filter is_tool_execution steps)"
    by (simp add: list_all2_lengthD)
  with s r a run_steps_filter [OF wf, of env self "[]" h] show ?thesis
    by (simp add: execute_plan_steps [OF s])
qed

theorem executor_outcomes_align_witness:
  "wf_plan demo_plan \<and>
   (\<exists>results h'. execute_plan demo_env demo_agent demo_plan [] = (Inr results, h') \<and>
                 length results = 2)"
proof -
  have w: "wf_plan demo_plan"
    by code_simp
  have s: "steps_of demo_plan = Some steps \<Longrightarrow> length (filter is_tool_execution steps) = 2" for steps
    by (auto simp: demo_plan_def is_tool_execution_def)
  from executor_outcomes_align [OF w, of demo_env demo_agent "[]"] s w show ?thesis
    by auto
qed

lemma openai_client_discover_tools:
  "discover_tools env self h = (tools, self1, h1) \<Longrightarrow>
   openai_client self1 = openai_client self \<and> available_servers self1 = available_servers self \<and>
   h1 = h @ list_events (available_servers self)"
  using discover_loop_history [of env "available_servers self" "[]" h]
  by (auto simp: discover_tools_def case_prod_beta)

lemma list_events_only_list:
  "list_all (\<lambda>e. \<not> is_tools_call (call_of e) \<and> \<not> is_synthesis (call_of e)) (list_events reg)"
  by (induction reg) (auto simp: list_events_def)

text \<open>
  C3. When the completion call for a plan raises, or returns a text that the JSON decoder
  rejects, \<open>_create_plan\<close> returns \<open>None\<close> and does not raise; \<open>execute\<close> then returns
  the fixed message that no execution plan could be created, and the only calls of the
  run are the discovery calls and the plan request: no tool is called and no synthesis
  is requested.
\<close>

theorem plan_failure_gives_fixed_message:
  assumes "openai_client self"
    and "discover_tools env self h = (tools, self1, h1)"
    and "c = PlanCompletion request (tool_registry self1)
               (if py_truthy context then context else JObj [])"
    and "complete env h1 c = CompletionRaised m \<or>
         (complete env h1 c = CompletionChoices (Some body # others) \<and> body \<noteq> [] \<and>
          json_loads env body = Inl err)"
  shows "create_plan env self1 request (tool_registry self1) context h1 =
           (Inr JNull, h1 @ [Issued c, Completed c]) \<and>
         execute env self request context h =
           (Inr (cross_mark @ '' Could not create execution plan''), self1,
            h @ list_events (available_servers self) @ [Issued c, Completed c]) \<and>
         list_all (\<lambda>e. \<not> is_tools_call (call_of e) \<and> \<not> is_synthesis (call_of e))
           (list_events (available_servers self) @ [Issued c, Completed c])"
proof -
  from openai_client_discover_tools [OF assms(2)] assms(1)
  have o: "openai_client self1" and h1: "h1 = h @ list_events (available_servers self)"
    by simp_all
  have p: "create_plan env self1 request (tool_registry self1) context h1 =
             (Inr JNull, h1 @ [Issued c, Completed c])"
    using assms(4) o
    by (auto simp: create_plan_def completion_call_def assms(3))
  have "execute env self request context h =
          (Inr (cross_mark @ '' Could not create execution plan''), self1,
           h1 @ [Issued c, Completed c])"
    using assms(1) assms(2) p by (simp add: execute_def execute_body_def)
  moreover have "list_all (\<lambda>e. \<not> is_tools_call (call_of e) \<and> \<not> is_synthesis (call_of e))
                   (list_events (available_servers self) @ [Issued c, Completed c])"
    using list_events_only_list [of "available_servers self"] by (simp add: assms(3))
  ultimately show ?thesis
    using p by (simp add: h1)
qed

theorem plan_failure_gives_fixed_message_witness:
  "openai_client demo_agent \<and>
   json_loads no_json_env ''Sorry, no plan'' = Inl ''Expecting value'' \<and>
   fst (execute no_json_env demo_agent ''hi'' JNull []) =
     Inr (cross_mark @ '' Could not create execution plan'')"
proof -
  obtain tools self1 h1 where d: "discover_tools no_json_env demo_agent [] = (tools, self1, h1)"
    by (cases "discover_tools no_json_env demo_agent []") auto
  let ?c = "PlanCompletion ''hi'' (tool_registry self1) (if py_truthy JNull then JNull else JObj [])"
  have o: "openai_client demo_agent"
    by (simp add: demo_agent_def)
  have c: "complete no_json_env h1 ?c = CompletionChoices (Some ''Sorry, no plan'' # [])"
    by (simp add: no_json_env_def)
  have l: "json_loads no_json_env ''Sorry, no plan'' = Inl ''Expecting value''"
    by (simp add: no_json_env_def demo_env_def demo_loads_def)
  have "complete no_json_env h1 ?c = CompletionRaised [] \<or>
        (complete no_json_env h1 ?c = CompletionChoices (Some ''Sorry, no plan'' # []) \<and>
         ''Sorry, no plan'' \<noteq> [] \<and> json_loads no_json_env ''Sorry, no plan'' = Inl ''Expecting value'')"
    using c l by simp
  from plan_failure_gives_fixed_message [OF o d refl this]
  have "fst (execute no_json_env demo_agent ''hi'' JNull []) =
          Inr (cross_mark @ '' Could not create execution plan'')"
    by simp
  with o l show ?thesis by simp
qed

text \<open>
  C9. When the completion call made by the synthesizer raises, \<open>_synthesize_results\<close>
  raises a \<open>ResourceError\<close> whose text is \<open>Synthesis failed:\<close> followed by the text of
  the failure; it returns no answer in its place. The error reaches its caller, the
  orchestration driver, whose result for the run is then the explicit text
  \<open>Execution error: Synthesis failed: ...\<close> and not a synthesized answer.
\<close>

theorem synthesis_failure_is_raised:
  assumes "openai_client self"
    and "discover_tools env self h = (tools, self1, h1)"
    and "create_plan env self1 request (tool_registry self1) context h1 = (Inr plan, h2)"
    and "py_truthy plan"
    and "execute_plan env self1 plan h2 = (Inr results, h3)"
    and "s = SynthesisCompletion request plan results"
    and "complete env h3 s = CompletionRaised m"
  shows "synthesize_results env self1 request plan results h3 =
           (Inl (ResourceError (''Synthesis failed: '' @ m)), h3 @ [Issued s, Completed s]) \<and>
         execute env self request context h =
           (Inr (cross_mark @ '' Execution error: Synthesis failed: '' @ m), self1,
            h3 @ [Issued s, Completed s])"
proof -
  from openai_client_discover_tools [OF assms(2)] assms(1)
  have o: "openai_client self1"
    by simp
  have r: "synthesize_results env self1 request plan results h3 =
             (Inl (ResourceError (''Synthesis failed: '' @ m)), h3 @ [Issued s, Completed s])"
    using o assms(7) by (simp add: synthesize_results_def completion_call_def assms(6))
  have "execute_body env self request context h =
          (Inl (ResourceError (''Synthesis failed: '' @ m)), self1, h3 @ [Issued s, Completed s])"
    using assms(2,3,4,5) r by (simp add: execute_body_def)
  then have "execute env self request context h =
          (Inr (cross_mark @ '' Execution error: Synthesis failed: '' @ m), self1,
           h3 @ [Issued s, Completed s])"
    using assms(1) by (simp add: execute_def)
  with r show ?thesis by simp
qed

theorem synthesis_failure_is_raised_witness:
  "openai_client demo_agent \<and> py_truthy demo_plan \<and>
   fst (execute broken_synthesis_env demo_agent ''hi'' JNull []) =
     Inr (cross_mark @ '' Execution error: Synthesis failed: rate limit'')"
proof -
  let ?env = broken_synthesis_env
  obtain tools self1 h1 where d: "discover_tools ?env demo_agent [] = (tools, self1, h1)"
    by (cases "discover_tools ?env demo_agent []") auto
  have o: "openai_client demo_agent"
    by (simp add: demo_agent_def)
  from openai_client_discover_tools [OF d] o have o1: "openai_client self1"
    by simp
  let ?p = "PlanCompletion ''hi'' (tool_registry self1) (JObj [])"
  have p: "create_plan ?env self1 ''hi'' (tool_registry self1) JNull h1 =
             (Inr demo_plan, h1 @ [Issued ?p, Completed ?p])"
    using o1
    by (simp add: create_plan_def completion_call_def broken_synthesis_env_def demo_env_def
          demo_complete_def demo_loads_def)
  have t: "py_truthy demo_plan"
    by (simp add: demo_plan_def)
  have "list_all wf_step
          [JObj [(''step'', JInt 1), (''action'', JStr ''tool_execution''),
                 (''server'', JStr ''tool_b''), (''tool'', JStr ''echo''),
                 (''arguments'', JObj [(''x'', JInt 1)])],
           JObj [(''step'', JInt 2), (''action'', JStr ''think'')],
           JObj [(''step'', JInt 3), (''action'', JStr ''tool_execution''),
                 (''server'', JStr ''slack_mcp''), (''tool'', JStr ''echo''),
                 (''arguments'', JObj [(''x'', JInt 1)])]]"
    by (simp add: wf_step_def)
  from run_steps_wf [OF this, of ?env self1 "[]" "h1 @ [Issued ?p, Completed ?p]"]
  obtain results h3 where
    e: "execute_plan ?env self1 demo_plan (h1 @ [Issued ?p, Completed ?p]) = (Inr results, h3)"
    by (auto simp: execute_plan_def demo_plan_def and_then_def)
  have c: "complete ?env h3 (SynthesisCompletion ''hi'' demo_plan results) = CompletionRaised ''rate limit''"
    by (simp add: broken_synthesis_env_def)
  from synthesis_failure_is_raised [OF o d p t e refl c]
  have "fst (execute ?env demo_agent ''hi'' JNull []) =
          Inr (cross_mark @ '' Execution error: Synthesis failed: rate limit'')"
    by simp
  with o t show ?thesis by simp
qed

end
